theory Spec2Isabelle
  imports
    Complex_Main
    "HOL-Library.Multiset"
    "HOL-Library.Char_ord"
    "HOL-Library.List_Lexorder"
    "HOL-Library.Sublist"
begin


section \<open>Time\<close>

text \<open>
  A timestamp is an instant of the naive local time line, counted in microseconds
  (the resolution of \<open>datetime\<close>) from midnight of 0001-01-01; a date is a
  proleptic Gregorian ordinal, the number \<open>date.toordinal()\<close> returns (0001-01-01
  is day 1, 9999-12-31 is day 3652059, the last one). \<open>ts - timedelta(days=n)\<close>
  subtracts \<open>n * day_us\<close>, and comparisons are those of the integers.
\<close>

type_synonym timestamp = int
type_synonym date = int

definition day_us :: int where
  "day_us = 86400000000"

definition date_of :: "timestamp \<Rightarrow> date" where
  "date_of t = t div day_us + 1"

definition midnight :: "date \<Rightarrow> timestamp" where
  "midnight d = (d - 1) * day_us"

definition MAXORDINAL :: int where
  "MAXORDINAL = 3652059"

text \<open>The instants that \<open>datetime\<close> has: those of the days 1 to \<open>MAXORDINAL\<close>.\<close>

definition datetime_range :: "timestamp \<Rightarrow> bool" where
  "datetime_range t = (0 \<le> t \<and> t < MAXORDINAL * day_us)"

text \<open>
  The calendar fields of a date, by the algorithm of CPython's \<open>datetime\<close>
  (\<open>_ord2ymd\<close>, with its two tables). \<open>divmod\<close> is floor division, as \<open>div\<close> and
  \<open>mod\<close> on \<open>int\<close> are.
\<close>

definition DAYS_IN_MONTH :: "int list" where
  "DAYS_IN_MONTH = [-1, 31, 28, 31, 30, 31, 30, 31, 31, 30, 31, 30, 31]"

definition DAYS_BEFORE_MONTH :: "int list" where
  "DAYS_BEFORE_MONTH = [-1, 0, 31, 59, 90, 120, 151, 181, 212, 243, 273, 304, 334]"

definition ord2ymd :: "date \<Rightarrow> int \<times> int \<times> int" where
  "ord2ymd ordinal =
    (let n = ordinal - 1;
         n400 = n div 146097; r400 = n mod 146097;
         n100 = r400 div 36524; r100 = r400 mod 36524;
         n4 = r100 div 1461; r4 = r100 mod 1461;
         n1 = r4 div 365; r = r4 mod 365;
         year = n400 * 400 + 1 + n100 * 100 + n4 * 4 + n1
     in if n1 = 4 \<or> n100 = 4 then (year - 1, 12, 31)
        else
          let leapyear = (n1 = 3 \<and> (n4 \<noteq> 24 \<or> n100 = 3));
              month = (r + 50) div 32;
              preceding = DAYS_BEFORE_MONTH ! nat month
                          + (if month > 2 \<and> leapyear then 1 else 0)
          in if preceding > r
             then
               let month' = month - 1;
                   preceding' = preceding
                     - (DAYS_IN_MONTH ! nat month'
                        + (if month' = 2 \<and> leapyear then 1 else 0))
               in (year, month', r - preceding' + 1)
             else (year, month, r - preceding + 1))"

definition year_of :: "date \<Rightarrow> int" where
  "year_of d = fst (ord2ymd d)"

definition month_of :: "date \<Rightarrow> int" where
  "month_of d = fst (snd (ord2ymd d))"

definition day_of :: "date \<Rightarrow> int" where
  "day_of d = snd (snd (ord2ymd d))"

text \<open>
  \<open>d + timedelta(days=n)\<close> on a date: \<open>date.__add__\<close> adds the ordinals and raises
  \<open>OverflowError\<close> when the sum is no ordinal of a date.
\<close>

datatype error = ParseError | ValueError | OverflowError

definition add_days :: "date \<Rightarrow> int \<Rightarrow> error + date" where
  "add_days d n = (if 0 < d + n \<and> d + n \<le> MAXORDINAL then Inr (d + n) else Inl OverflowError)"

text \<open>
  \<open>strftime('%Y-%m-%d')\<close> on a date: the year in decimal as the C library prints it
  (no padding: 999 for the year 999), month and day in two digits.
\<close>

definition digit :: "int \<Rightarrow> char" where
  "digit n = ''0123456789'' ! nat (n mod 10)"

function decimal :: "int \<Rightarrow> string" where
  "decimal n = (if n < 10 then [digit n] else decimal (n div 10) @ [digit n])"
  by pat_completeness auto
termination
  by (relation "measure nat") auto

declare decimal.simps [simp del]

definition pad2 :: "int \<Rightarrow> string" where
  "pad2 n = [digit (n div 10), digit n]"

definition strftime :: "date \<Rightarrow> string" where
  "strftime d = decimal (year_of d) @ ''-'' @ pad2 (month_of d) @ ''-'' @ pad2 (day_of d)"

section \<open>The three tables\<close>

text \<open>
  Modelled from the spec: the column types of the three frames, which the repository
  declares nowhere (the frames come from \<open>SELECT *\<close>). Section 3 of the spec gives
  Order the columns id, user_id, ordered_at; OrderItem the columns order_id, flower_id,
  quantity, total_price; Flower the columns id, name, price. The forecaster reads an
  order-level total_price from Orders (section 4.2): its rows are orders extended by that
  column. Identifiers and quantities are integers. Prices are real numbers, standing for
  the binary floating-point numbers of a float64 column; what the libraries compute
  from them with rounding (the sums of a group, the regression) is a parameter of the
  model, not an exact sum or an exact line.

  A cell of the column ordered_at holds either a string or a native timestamp:
  the code passes the column through \<open>pd.to_datetime\<close> before it compares dates.
\<close>

datatype cell = Text string | Stamp timestamp

record order =
  o_id :: int
  o_user_id :: int
  o_ordered_at :: cell

record sale = order +
  o_total_price :: real

record order_item =
  i_order_id :: int
  i_flower_id :: int
  i_quantity :: int
  i_total_price :: real

record flower =
  f_id :: int
  f_name :: string
  f_price :: real

section \<open>The pandas operations the code calls\<close>

text \<open>
  \<open>pd.to_datetime\<close> leaves a timestamp as it is and parses a string. The parser of
  pandas is a parameter \<open>parse\<close> of the model; where it rejects a string
  (\<open>None\<close>), \<open>pd.to_datetime\<close> raises, and so does the function that called it. A
  converted column holds instants of \<open>datetime\<close> only: there is no timestamp
  before 0001-01-01 or after 9999-12-31, so the conversion yields none.
\<close>

definition to_datetime :: "(string \<Rightarrow> timestamp option) \<Rightarrow> cell \<Rightarrow> timestamp option" where
  "to_datetime parse c =
     (case (case c of Text s \<Rightarrow> parse s | Stamp t \<Rightarrow> Some t) of
        None \<Rightarrow> None
      | Some t \<Rightarrow> if datetime_range t then Some t else None)"

definition to_datetime_col ::
  "(string \<Rightarrow> timestamp option) \<Rightarrow> cell list \<Rightarrow> error + timestamp list" where
  "to_datetime_col parse cs =
     (case those (map (to_datetime parse) cs) of
        None \<Rightarrow> Inl ParseError
      | Some ts \<Rightarrow> Inr ts)"

text \<open>
  \<open>left.merge(right, left_on=..., right_on=...)\<close>: the inner join, one row for every
  pair of a left and a right row with equal keys, in the order of the left rows.
\<close>

definition merge :: "'a list \<Rightarrow> 'b list \<Rightarrow> ('a \<Rightarrow> int) \<Rightarrow> ('b \<Rightarrow> int) \<Rightarrow> ('a \<times> 'b) list" where
  "merge left right left_on right_on =
     concat (map (\<lambda>l. map (\<lambda>r. (l, r)) (filter (\<lambda>r. left_on l = right_on r) right)) left)"

text \<open>
  \<open>df.groupby(key)[col].sum()\<close>: a series with one entry for every distinct key, in
  ascending order of the keys (\<open>sort=True\<close> is the default), holding the sum of the
  column over the rows of that key, in the order of the rows. How the entries of a group
  are added depends on the type of the column and is the argument \<open>agg\<close>:

  \<^item> a column of quantities is an int64 column, whose sums wrap around modulo \<open>2^64\<close>
    (\<open>sum_int64\<close>);
  \<^item> a column of prices is a float64 column, whose sums pandas rounds as it adds. That
    summation is a parameter \<open>float_sum\<close> of the functions below: the sum of the
    group's entries as the library returns it.
\<close>

definition groupby_sum ::
  "('r \<Rightarrow> 'k::linorder) \<Rightarrow> ('r \<Rightarrow> 'v) \<Rightarrow> ('v list \<Rightarrow> 'v) \<Rightarrow> 'r list \<Rightarrow> ('k \<times> 'v) list" where
  "groupby_sum key col agg rows =
     map (\<lambda>k. (k, agg (map col (filter (\<lambda>r. key r = k) rows))))
         (sort (remdups (map key rows)))"

definition int64 :: "int \<Rightarrow> int" where
  "int64 x = (x + 2 ^ 63) mod 2 ^ 64 - 2 ^ 63"

definition sum_int64 :: "int list \<Rightarrow> int" where
  "sum_int64 xs = int64 (sum_list xs)"

text \<open>
  \<open>Series.idxmax()\<close>: the label of the first entry that holds the maximum; it raises
  \<open>ValueError\<close> on an empty series.
\<close>

fun idxmax_from :: "'k \<Rightarrow> 'v::linorder \<Rightarrow> ('k \<times> 'v) list \<Rightarrow> 'k" where
  "idxmax_from k v [] = k"
| "idxmax_from k v ((k', v') # rest) =
     (if v < v' then idxmax_from k' v' rest else idxmax_from k v rest)"

fun idxmax :: "('k \<times> 'v::linorder) list \<Rightarrow> error + 'k" where
  "idxmax [] = Inl ValueError"
| "idxmax ((k, v) # rest) = Inr (idxmax_from k v rest)"




text \<open>
  What the libraries do for \<open>sort_values(ascending=False)\<close> with the default kind.
  This is code of pandas and numpy, which the repository calls and does not hold; it is
  modelled here from their sources, for the examples.

  numpy's \<open>argsort\<close> with \<open>kind='quicksort'\<close> (\<open>aquicksort\<close> of
  \<open>npysort/quicksort\<close>) sorts an array \<open>tosort\<close> of indices into the values \<open>v\<close>.
  A range \<open>pl .. pr\<close> of more than \<open>SMALL_QUICKSORT + 1\<close> indices is partitioned
  around the median of its first, middle and last value, the larger part is pushed on a
  stack and the smaller is continued with; a range of at most that length is sorted by
  insertion. \<open>cdepth\<close> bounds the number of partitions: when it is used up numpy sorts
  the range by heapsort, which is not modelled (the result is \<open>None\<close> then). The two
  scans of a partition stop at sentinels that the median-of-three step has put in place,
  so they are written as the loops they are, with \<open>None\<close> for a loop that does not
  end. (\<open>p_i\<close> is the pointer \<open>pi\<close> of the source.)
\<close>

definition SMALL_QUICKSORT :: nat where
  "SMALL_QUICKSORT = 16"

fun npy_get_msb :: "nat \<Rightarrow> nat" where
  "npy_get_msb n = (if n < 2 then 0 else Suc (npy_get_msb (n div 2)))"

declare npy_get_msb.simps [simp del]

definition INTP_SWAP :: "nat list \<Rightarrow> nat \<Rightarrow> nat \<Rightarrow> nat list" where
  "INTP_SWAP a i j = a[i := a ! j, j := a ! i]"

text \<open>\<open>do ++pi; while (v[*pi] < vp);\<close> and \<open>do --pj; while (vp < v[*pj]);\<close>\<close>

partial_function (option) scan_up :: "'v::linorder list \<Rightarrow> nat list \<Rightarrow> 'v \<Rightarrow> nat \<Rightarrow> nat option" where
  "scan_up v a vp p_i =
     (if v ! (a ! (p_i + 1)) < vp then scan_up v a vp (p_i + 1) else Some (p_i + 1))"

declare scan_up.simps [code]

partial_function (option) scan_down :: "'v::linorder list \<Rightarrow> nat list \<Rightarrow> 'v \<Rightarrow> nat \<Rightarrow> nat option" where
  "scan_down v a vp pj =
     (if vp < v ! (a ! (pj - 1)) then scan_down v a vp (pj - 1) else Some (pj - 1))"

declare scan_down.simps [code]

partial_function (option) partition_loop ::
  "'v::linorder list \<Rightarrow> 'v \<Rightarrow> nat list \<Rightarrow> nat \<Rightarrow> nat \<Rightarrow> (nat list \<times> nat) option" where
  "partition_loop v vp a p_i pj =
     Option.bind (scan_up v a vp p_i) (\<lambda>p_i.
     Option.bind (scan_down v a vp pj) (\<lambda>pj.
       if p_i \<ge> pj then Some (a, p_i)
       else partition_loop v vp (INTP_SWAP a p_i pj) p_i pj))"

declare partition_loop.simps [code]

definition partition_range :: "'v::linorder list \<Rightarrow> nat list \<Rightarrow> nat \<Rightarrow> nat \<Rightarrow> (nat list \<times> nat) option" where
  "partition_range v a pl pr =
     (let pm = pl + (pr - pl) div 2;
          a = (if v ! (a ! pm) < v ! (a ! pl) then INTP_SWAP a pm pl else a);
          a = (if v ! (a ! pr) < v ! (a ! pm) then INTP_SWAP a pr pm else a);
          a = (if v ! (a ! pm) < v ! (a ! pl) then INTP_SWAP a pm pl else a);
          vp = v ! (a ! pm);
          p_i = pl;
          pj = pr - 1;
          a = INTP_SWAP a pm pj
      in Option.bind (partition_loop v vp a p_i pj) (\<lambda>(a, p_i).
           let pk = pr - 1 in Some (INTP_SWAP a p_i pk, p_i)))"

text \<open>
  The insertion sort of a range: \<open>shift\<close> is the inner loop
  \<open>while (pj > pl && vp < v[*pk]) *pj-- = *pk--;\<close>, \<open>insertion_sort\<close> the loop
  \<open>for (pi = pl + 1; pi <= pr; ++pi)\<close> around it.
\<close>

function shift :: "'v::linorder list \<Rightarrow> nat list \<Rightarrow> 'v \<Rightarrow> nat \<Rightarrow> nat \<Rightarrow> nat list \<times> nat" where
  "shift v a vp pl pj =
     (if pj > pl \<and> vp < v ! (a ! (pj - 1)) then shift v (a[pj := a ! (pj - 1)]) vp pl (pj - 1)
      else (a, pj))"
  by pat_completeness auto
termination
  by (relation "measure (\<lambda>(v, a, vp, pl, pj). pj)") auto

declare shift.simps [simp del]

function insertion_sort :: "'v::linorder list \<Rightarrow> nat list \<Rightarrow> nat \<Rightarrow> nat \<Rightarrow> nat \<Rightarrow> nat list" where
  "insertion_sort v a pl pr p_i =
     (if p_i \<le> pr then
        let vi = a ! p_i;
            vp = v ! vi;
            (a, pj) = shift v a vp pl p_i
        in insertion_sort v (a[pj := vi]) pl pr (p_i + 1)
      else a)"
  by pat_completeness auto
termination
  by (relation "measure (\<lambda>(v, a, pl, pr, p_i). pr + 1 - p_i)") auto

declare insertion_sort.simps [simp del]

text \<open>
  The loop \<open>while (1)\<close> of \<open>aquicksort\<close>. \<open>fresh\<close> holds at its head, where the
  depth is tested, and not inside the loop \<open>while ((pr - pl) > SMALL_QUICKSORT)\<close>.
  The stack holds the ranges put aside with the depth saved for each.
\<close>

partial_function (option) aquicksort_loop ::
  "'v::linorder list \<Rightarrow> nat list \<Rightarrow> nat \<Rightarrow> nat \<Rightarrow> int \<Rightarrow> (nat \<times> nat \<times> int) list \<Rightarrow> bool
   \<Rightarrow> nat list option" where
  "aquicksort_loop v a pl pr cdepth stack fresh =
     (if fresh \<and> cdepth < 0 then None
      else if pr - pl > SMALL_QUICKSORT then
        Option.bind (partition_range v a pl pr) (\<lambda>(a, p_i).
          if p_i - pl < pr - p_i
          then aquicksort_loop v a pl (p_i - 1) (cdepth - 1) ((p_i + 1, pr, cdepth - 1) # stack) False
          else aquicksort_loop v a (p_i + 1) pr (cdepth - 1) ((pl, p_i - 1, cdepth - 1) # stack) False)
      else
        let a = insertion_sort v a pl pr (pl + 1) in
        case stack of
          [] \<Rightarrow> Some a
        | (pl, pr, cdepth) # stack \<Rightarrow> aquicksort_loop v a pl pr cdepth stack True)"

declare aquicksort_loop.simps [code]

text \<open>
  \<open>argsort\<close> starts from the indices \<open>0, \<dots>, num - 1\<close> and the depth
  \<open>2 * npy_get_msb(num)\<close>; an empty array has nothing to sort.
\<close>

definition argsort :: "'v::linorder list \<Rightarrow> nat list option" where
  "argsort v =
     (let num = length v; tosort = [0 ..< num] in
      if num = 0 then Some tosort
      else aquicksort_loop v tosort 0 (num - 1) (2 * int (npy_get_msb num)) [] True)"

text \<open>
  pandas' \<open>nargsort\<close> for \<open>ascending=False\<close> reverses the values and their positions,
  sorts the reversed values in ascending order, and reverses the result;
  \<open>sort_values\<close> takes the entries of the series at the positions it returns. (No
  value here is NaN.)
\<close>

definition nargsort :: "'v::linorder list \<Rightarrow> nat list option" where
  "nargsort items =
     (let idx = [0 ..< length items];
          non_nans = rev items;
          non_nan_idx = rev idx
      in map_option (\<lambda>sorted. rev (map (\<lambda>i. non_nan_idx ! i) sorted)) (argsort non_nans))"

definition sort_values_desc :: "('k \<times> 'v::linorder) list \<Rightarrow> ('k \<times> 'v) list" where
  "sort_values_desc s = map (\<lambda>i. s ! i) (the (nargsort (map snd s)))"

text \<open>
  \<open>Series.str.contains(pat, case=False)\<close> with a pattern \<open>'|'.join(names)\<close> of
  literal names: a regular-expression search, which succeeds when one of the names
  occurs in the string at some position, letters compared without regard to case. The
  join of no names is the empty pattern, which occurs in every string. Characters are
  bytes here and only the letters A to Z have another case.
\<close>

definition lower :: "char \<Rightarrow> char" where
  "lower c =
     (case map_of (zip ''ABCDEFGHIJKLMNOPQRSTUVWXYZ'' ''abcdefghijklmnopqrstuvwxyz'') c of
        Some l \<Rightarrow> l
      | None \<Rightarrow> c)"

fun search :: "'a list \<Rightarrow> 'a list \<Rightarrow> bool" where
  "search pat [] = (pat = [])"
| "search pat (c # cs) = (prefix pat (c # cs) \<or> search pat cs)"

definition str_contains :: "string list \<Rightarrow> string \<Rightarrow> bool" where
  "str_contains names s =
     (if names = [] then True
      else list_ex (\<lambda>n. search (map lower n) (map lower s)) names)"

section \<open>analytics.py\<close>

record sales_analytics =
  most_sold_flower :: "string option"
  daily_revenue :: real
  monthly_revenue :: real
  top_customers :: "(int \<times> real) list"

text \<open>
  A row of the frame \<open>df\<close> after both merges and the conversion of ordered_at: the
  order item, its flower, its order and the order's timestamp. The Orders of
  \<open>get_sales_analytics\<close> have the columns of section 3, so the one column total_price of
  \<open>df\<close> is the order item's, as sections 4.1 and 9 of the spec read it (were there a
  second column of that name, the merge would rename both).
\<close>

type_synonym row = "(order_item \<times> flower) \<times> order"

definition name :: "row \<times> timestamp \<Rightarrow> string" where
  "name r = f_name (snd (fst (fst r)))"

definition quantity :: "row \<times> timestamp \<Rightarrow> int" where
  "quantity r = i_quantity (fst (fst (fst r)))"

definition total_price :: "row \<times> timestamp \<Rightarrow> real" where
  "total_price r = i_total_price (fst (fst (fst r)))"

definition user_id :: "row \<times> timestamp \<Rightarrow> int" where
  "user_id r = o_user_id (snd (fst r))"

definition ordered_at :: "row \<times> timestamp \<Rightarrow> timestamp" where
  "ordered_at r = snd r"

definition joined :: "order list \<Rightarrow> order_item list \<Rightarrow> flower list \<Rightarrow> row list" where
  "joined df_orders df_order_items df_flowers =
     merge (merge df_order_items df_flowers i_flower_id f_id) df_orders
       (\<lambda>r. i_order_id (fst r)) o_id"

text \<open>
  \<open>get_sales_analytics\<close> reads the clock three times: for today's date, for the
  current month and for the current year. The three readings are the parameters
  \<open>now_today\<close>, \<open>now_month\<close> and \<open>now_year\<close>. The dictionary \<open>top_customers\<close> is
  the list of its items in insertion order; the empty list of the early return and the
  empty dictionary are both \<open>[]\<close>. The two revenues are \<open>Series.sum()\<close> of a
  filtered column, written as the sum of its entries.
\<close>

definition get_sales_analytics ::
  "(string \<Rightarrow> timestamp option) \<Rightarrow> (real list \<Rightarrow> real) \<Rightarrow>
   ((int \<times> real) list \<Rightarrow> (int \<times> real) list) \<Rightarrow>
   timestamp \<Rightarrow> timestamp \<Rightarrow> timestamp \<Rightarrow>
   order list \<Rightarrow> order_item list \<Rightarrow> flower list \<Rightarrow> error + sales_analytics" where
  "get_sales_analytics parse float_sum sort_values now_today now_month now_year
       df_orders df_order_items df_flowers =
     (if df_orders = [] \<or> df_order_items = [] then
        Inr \<lparr>most_sold_flower = None, daily_revenue = 0, monthly_revenue = 0,
             top_customers = []\<rparr>
      else
        let merged = joined df_orders df_order_items df_flowers in
        case to_datetime_col parse (map (\<lambda>r. o_ordered_at (snd r)) merged) of
          Inl e \<Rightarrow> Inl e
        | Inr ts \<Rightarrow>
            (let df = zip merged ts in
             case (if df \<noteq> [] then
                     map_sum id Some (idxmax (groupby_sum name quantity sum_int64 df))
                   else Inr None) of
               Inl e \<Rightarrow> Inl e
             | Inr most_sold \<Rightarrow>
                 (let today = date_of now_today;
                      daily_rev =
                        (if df \<noteq> [] then
                           sum_list (map total_price
                             (filter (\<lambda>r. date_of (ordered_at r) = today) df))
                         else 0);
                      this_month = month_of (date_of now_month);
                      this_year = year_of (date_of now_year);
                      monthly_rev =
                        (if df \<noteq> [] then
                           sum_list (map total_price
                             (filter (\<lambda>r. month_of (date_of (ordered_at r)) = this_month
                                          \<and> year_of (date_of (ordered_at r)) = this_year) df))
                         else 0);
                      top = take 5 (sort_values (groupby_sum user_id total_price float_sum df))
                  in Inr \<lparr>most_sold_flower = most_sold, daily_revenue = daily_rev,
                          monthly_revenue = monthly_rev, top_customers = top\<rparr>)))"

record forecast_point =
  date :: string
  predicted_demand :: real

text \<open>
  \<open>predict_demand\<close> assigns the converted column to the frame it was given, so the
  model returns that frame as the call leaves it, next to the result. When the
  conversion raises, nothing has been assigned.

  \<open>LinearRegression().fit(X, y)\<close> followed by \<open>model.predict\<close> on one row is the
  parameter \<open>LinearRegression\<close>: \<open>LinearRegression X y x\<close> is the prediction at
  \<open>x\<close> of the model fitted to the column \<open>X\<close> and the targets \<open>y\<close>, a number that
  scikit-learn computes in binary floating point.

  The loop over the predictions builds the forecast point by point;
  \<open>last_date + timedelta(days=i+1)\<close> raises when it leaves the dates, and the call
  raises with it.
\<close>

definition daily_sales :: "(real list \<Rightarrow> real) \<Rightarrow> (sale \<times> timestamp) list \<Rightarrow> (date \<times> real) list" where
  "daily_sales float_sum df =
     groupby_sum (\<lambda>r. date_of (snd r)) (\<lambda>r. o_total_price (fst r)) float_sum df"

fun forecast_loop :: "date \<Rightarrow> nat \<Rightarrow> real list \<Rightarrow> error + forecast_point list" where
  "forecast_loop last_date i [] = Inr []"
| "forecast_loop last_date i (pred # predictions) =
     (case add_days last_date (int i + 1) of
        Inl e \<Rightarrow> Inl e
      | Inr forecast_date \<Rightarrow>
          (case forecast_loop last_date (i + 1) predictions of
             Inl e \<Rightarrow> Inl e
           | Inr forecast \<Rightarrow>
               Inr (\<lparr>date = strftime forecast_date, predicted_demand = max 0 pred\<rparr> # forecast)))"

definition predict_demand ::
  "(string \<Rightarrow> timestamp option) \<Rightarrow> (real list \<Rightarrow> real) \<Rightarrow>
   (real list \<Rightarrow> real list \<Rightarrow> real \<Rightarrow> real) \<Rightarrow>
   sale list \<Rightarrow> sale list \<times> (error + forecast_point list)" where
  "predict_demand parse float_sum LinearRegression df_orders =
     (if df_orders = [] then (df_orders, Inr [])
      else
        case to_datetime_col parse (map o_ordered_at df_orders) of
          Inl e \<Rightarrow> (df_orders, Inl e)
        | Inr ts \<Rightarrow>
            (let df_orders' = map (\<lambda>(r, t). r\<lparr>o_ordered_at := Stamp t\<rparr>) (zip df_orders ts);
                sales = daily_sales float_sum (zip df_orders' ts)
            in if length sales < 2 then (df_orders', Inr [])
               else
                 let day_num = map real [0 ..< length sales];
                     model = LinearRegression day_num (map snd sales);
                     future_days = map (\<lambda>i. real (length sales + i)) [0 ..< 7];
                     predictions = map model future_days;
                     last_date = Max (set (map fst sales))
                 in (df_orders', forecast_loop last_date 0 predictions)))"

section \<open>recommender.py\<close>

record recommendations =
  most_purchased :: "flower list"
  seasonal :: "flower list"
  trending :: "flower list"

definition seasonal_map :: "(int list \<times> string list) list" where
  "seasonal_map =
     [([12, 1, 2], [''Poinsettia'', ''Winter Jasmine'', ''Amaryllis'']),
      ([3, 4, 5], [''Tulip'', ''Daffodil'', ''Peony'']),
      ([6, 7, 8], [''Sunflower'', ''Rose'', ''Lavender'']),
      ([9, 10, 11], [''Chrysanthemum'', ''Marigold'', ''Dahlia''])]"

text \<open>The loop over the items of \<open>seasonal_map\<close>, which stops at the first hit.\<close>

fun current_season :: "int \<Rightarrow> (int list \<times> string list) list \<Rightarrow> string list" where
  "current_season month [] = []"
| "current_season month ((months, flowers) # rest) =
     (if month \<in> set months then flowers else current_season month rest)"

text \<open>
  The expression both rankings share: the labels of the first three entries of the
  sorted sums, then the rows of the catalogue whose id is one of them, in the order of
  the catalogue, cut down to the columns id, name and price.
\<close>

definition top_flower_ids ::
  "((int \<times> int) list \<Rightarrow> (int \<times> int) list) \<Rightarrow> order_item list \<Rightarrow> int list" where
  "top_flower_ids sort_values its =
     map fst (take 3 (sort_values (groupby_sum i_flower_id i_quantity sum_int64 its)))"

definition id_name_price :: "flower \<Rightarrow> flower" where
  "id_name_price f = \<lparr>f_id = f_id f, f_name = f_name f, f_price = f_price f\<rparr>"

definition records_of :: "flower list \<Rightarrow> int list \<Rightarrow> flower list" where
  "records_of df_flowers ids = map id_name_price (filter (\<lambda>f. f_id f \<in> set ids) df_flowers)"

text \<open>
  \<open>get_recommendations\<close> reads the clock twice: for the start of the window of the
  last seven days (\<open>now_window\<close>) and for the month of the season (\<open>now_season\<close>).
\<close>

definition get_recommendations ::
  "(string \<Rightarrow> timestamp option) \<Rightarrow> ((int \<times> int) list \<Rightarrow> (int \<times> int) list) \<Rightarrow>
   timestamp \<Rightarrow> timestamp \<Rightarrow>
   int \<Rightarrow> order list \<Rightarrow> order_item list \<Rightarrow> flower list \<Rightarrow> error + recommendations" where
  "get_recommendations parse sort_values now_window now_season
       uid df_orders df_order_items df_flowers =
     (if df_orders = [] \<or> df_flowers = [] then
        Inr \<lparr>most_purchased = [], seasonal = [], trending = []\<rparr>
      else
        let user_orders = filter (\<lambda>r. o_user_id r = uid) df_orders;
            user_items =
              filter (\<lambda>i. i_order_id i \<in> set (map o_id user_orders)) df_order_items;
            purchased =
              (if user_orders \<noteq> [] \<and> user_items \<noteq> [] then
                 records_of df_flowers (top_flower_ids sort_values user_items)
               else [])
        in
        case to_datetime_col parse (map o_ordered_at df_orders) of
          Inl e \<Rightarrow> Inl e
        | Inr ts \<Rightarrow>
            (let last_7_days = now_window - 7 * day_us;
                recent_orders = map fst (filter (\<lambda>r. last_7_days \<le> snd r) (zip df_orders ts));
                recent_items =
                  filter (\<lambda>i. i_order_id i \<in> set (map o_id recent_orders)) df_order_items;
                trend =
                  (if recent_orders \<noteq> [] \<and> recent_items \<noteq> [] then
                     records_of df_flowers (top_flower_ids sort_values recent_items)
                   else []);
                month = month_of (date_of now_season);
                current_season_flowers = current_season month seasonal_map
            in Inr \<lparr>most_purchased = purchased,
                    seasonal = filter (\<lambda>f. str_contains current_season_flowers (f_name f))
                                 df_flowers,
                    trending = trend\<rparr>))"

section \<open>A parser and tables for the examples\<close>

text \<open>
  One of the forms the parser of pandas accepts is \<open>YYYY-MM-DD\<close>, read as midnight of
  that day. \<open>parse_iso_date\<close> parses this form and nothing else; the ordinal of the day is
  computed as CPython's \<open>_ymd2ord\<close> does.
\<close>

definition is_leap :: "int \<Rightarrow> bool" where
  "is_leap year = (year mod 4 = 0 \<and> (year mod 100 \<noteq> 0 \<or> year mod 400 = 0))"

definition days_before_year :: "int \<Rightarrow> int" where
  "days_before_year year =
     (let y = year - 1 in y * 365 + y div 4 - y div 100 + y div 400)"

definition days_in_month :: "int \<Rightarrow> int \<Rightarrow> int" where
  "days_in_month year month =
     (if month = 2 \<and> is_leap year then 29 else DAYS_IN_MONTH ! nat month)"

definition days_before_month :: "int \<Rightarrow> int \<Rightarrow> int" where
  "days_before_month year month =
     DAYS_BEFORE_MONTH ! nat month + (if month > 2 \<and> is_leap year then 1 else 0)"

definition ymd2ord :: "int \<Rightarrow> int \<Rightarrow> int \<Rightarrow> date" where
  "ymd2ord year month day = days_before_year year + days_before_month year month + day"

definition number :: "string \<Rightarrow> int option" where
  "number cs =
     (case those (map (map_of (zip ''0123456789'' [0, 1, 2, 3, 4, 5, 6, 7, 8, 9])) cs) of
        None \<Rightarrow> None
      | Some ds \<Rightarrow> Some (foldl (\<lambda>a d. 10 * a + d) 0 ds))"

definition parse_iso_date :: "string \<Rightarrow> timestamp option" where
  "parse_iso_date s =
     (if length s = 10 \<and> s ! 4 = CHR ''-'' \<and> s ! 7 = CHR ''-'' then
        case (number (take 4 s), number (take 2 (drop 5 s)), number (drop 8 s)) of
          (Some year, Some month, Some day) \<Rightarrow>
            if 1 \<le> year \<and> 1 \<le> month \<and> month \<le> 12 \<and> 1 \<le> day
               \<and> day \<le> days_in_month year month
            then Some (midnight (ymd2ord year month day))
            else None
        | _ \<Rightarrow> None
      else None)"

text \<open>
  The prices of the examples are small whole numbers, which binary floating point adds
  without rounding: in the examples the sum that pandas returns for a group is the sum
  of its entries, \<open>sum_list\<close>.

  A shop with three flowers, two of them named Rose, three orders of two users (one
  ordered_at a string) and six order items, one of which names an order and one a
  flower that do not exist. Day 739052 is 2024-06-15, day 738945 is 2024-02-29.
\<close>

definition shop_flowers :: "flower list" where
  "shop_flowers =
     [\<lparr>f_id = 1, f_name = ''Rose'', f_price = 3\<rparr>,
      \<lparr>f_id = 2, f_name = ''Tulip'', f_price = 2\<rparr>,
      \<lparr>f_id = 3, f_name = ''Rose'', f_price = 4\<rparr>]"

definition shop_orders :: "order list" where
  "shop_orders =
     [\<lparr>o_id = 10, o_user_id = 7, o_ordered_at = Stamp (midnight 739052 + 3600000000)\<rparr>,
      \<lparr>o_id = 11, o_user_id = 8, o_ordered_at = Text ''2024-06-01''\<rparr>,
      \<lparr>o_id = 12, o_user_id = 7, o_ordered_at = Stamp (midnight 738945)\<rparr>]"

definition shop_items :: "order_item list" where
  "shop_items =
     [\<lparr>i_order_id = 10, i_flower_id = 1, i_quantity = 2, i_total_price = 6\<rparr>,
      \<lparr>i_order_id = 10, i_flower_id = 2, i_quantity = 5, i_total_price = 10\<rparr>,
      \<lparr>i_order_id = 11, i_flower_id = 3, i_quantity = 5, i_total_price = 20\<rparr>,
      \<lparr>i_order_id = 12, i_flower_id = 2, i_quantity = 1, i_total_price = 2\<rparr>,
      \<lparr>i_order_id = 99, i_flower_id = 1, i_quantity = 50, i_total_price = 150\<rparr>,
      \<lparr>i_order_id = 11, i_flower_id = 42, i_quantity = 9, i_total_price = 9\<rparr>]"

definition noon :: timestamp where
  "noon = midnight 739052 + 43200000000"



text \<open>
  One order with two lines of \<open>2^62\<close> roses each and one line of a single tulip: the
  roses sum to \<open>2^63\<close>, one more than an int64 holds.
\<close>

definition bulk_orders :: "order list" where
  "bulk_orders = [\<lparr>o_id = 1, o_user_id = 7, o_ordered_at = Stamp noon\<rparr>]"

definition bulk_items :: "order_item list" where
  "bulk_items =
     [\<lparr>i_order_id = 1, i_flower_id = 1, i_quantity = 2 ^ 62, i_total_price = 1\<rparr>,
      \<lparr>i_order_id = 1, i_flower_id = 1, i_quantity = 2 ^ 62, i_total_price = 1\<rparr>,
      \<lparr>i_order_id = 1, i_flower_id = 2, i_quantity = 1, i_total_price = 2\<rparr>]"






text \<open>A catalogue for the summer: four of its five names hold a name of the season.\<close>

definition garden_flowers :: "flower list" where
  "garden_flowers =
     [\<lparr>f_id = 1, f_name = ''Red Rose Bouquet'', f_price = 30\<rparr>,
      \<lparr>f_id = 2, f_name = ''Tulip Mix'', f_price = 12\<rparr>,
      \<lparr>f_id = 3, f_name = ''sunflower'', f_price = 4\<rparr>,
      \<lparr>f_id = 4, f_name = ''LAVENDER pot'', f_price = 9\<rparr>,
      \<lparr>f_id = 5, f_name = ''Rose'', f_price = 3\<rparr>]"

text \<open>
  A catalogue of four flowers and three orders: one of yesterday with one of each
  flower, one dated thirty days after \<open>noon\<close>, and one of January given as a string.
\<close>

definition tie_flowers :: "flower list" where
  "tie_flowers =
     [\<lparr>f_id = 1, f_name = ''Rose'', f_price = 3\<rparr>,
      \<lparr>f_id = 2, f_name = ''Tulip'', f_price = 2\<rparr>,
      \<lparr>f_id = 3, f_name = ''Peony'', f_price = 5\<rparr>,
      \<lparr>f_id = 4, f_name = ''Dahlia'', f_price = 4\<rparr>]"

definition late_orders :: "order list" where
  "late_orders =
     [\<lparr>o_id = 1, o_user_id = 7, o_ordered_at = Stamp (noon - day_us)\<rparr>,
      \<lparr>o_id = 2, o_user_id = 8, o_ordered_at = Stamp (noon + 30 * day_us)\<rparr>,
      \<lparr>o_id = 3, o_user_id = 9, o_ordered_at = Text ''2024-01-03''\<rparr>]"

definition late_stamps :: "timestamp list" where
  "late_stamps = [noon - day_us, noon + 30 * day_us, midnight 738888]"

definition late_items :: "order_item list" where
  "late_items =
     [\<lparr>i_order_id = 1, i_flower_id = 1, i_quantity = 1, i_total_price = 3\<rparr>,
      \<lparr>i_order_id = 1, i_flower_id = 2, i_quantity = 1, i_total_price = 2\<rparr>,
      \<lparr>i_order_id = 1, i_flower_id = 3, i_quantity = 1, i_total_price = 5\<rparr>,
      \<lparr>i_order_id = 1, i_flower_id = 4, i_quantity = 1, i_total_price = 4\<rparr>,
      \<lparr>i_order_id = 2, i_flower_id = 4, i_quantity = 5, i_total_price = 20\<rparr>,
      \<lparr>i_order_id = 3, i_flower_id = 2, i_quantity = 7, i_total_price = 14\<rparr>]"





section \<open>What the claims speak of\<close>

text \<open>
  The summed quantity of a flower name over the rows of the join of OrderItems with
  Flowers and Orders, as a sum of integers; and the summed total_price of a user over
  those rows, as the library adds the prices of the user's rows.
\<close>

definition quantity_sold :: "string \<Rightarrow> row list \<Rightarrow> int" where
  "quantity_sold n rows =
     sum_list (map (\<lambda>r. i_quantity (fst (fst r))) (filter (\<lambda>r. f_name (snd (fst r)) = n) rows))"



text \<open>The numbers an int64 holds.\<close>

definition in_int64 :: "int \<Rightarrow> bool" where
  "in_int64 x = (- (2 ^ 63) \<le> x \<and> x < 2 ^ 63)"

text \<open>
  The revenue of a date: the total_price of the orders of that date, as the library adds
  them.
\<close>

definition revenue_on :: "(real list \<Rightarrow> real) \<Rightarrow> sale list \<Rightarrow> timestamp list \<Rightarrow> date \<Rightarrow> real" where
  "revenue_on float_sum df_orders ts d =
     float_sum (map (\<lambda>r. o_total_price (fst r)) (filter (\<lambda>r. date_of (snd r) = d) (zip df_orders ts)))"

text \<open>
  A name occurs in a string when, both in lower case, the string is some prefix, the name
  and some suffix: the case-insensitive substring of the claims.
\<close>

definition occurs_in :: "string \<Rightarrow> string \<Rightarrow> bool" where
  "occurs_in n s = (\<exists>pre post. map lower s = pre @ map lower n @ post)"

text \<open>
  The orders of the seven days that end at an instant \<open>now\<close>, and the order items of
  some orders.
\<close>

definition last_7_days_ending :: "timestamp \<Rightarrow> order list \<Rightarrow> timestamp list \<Rightarrow> order list" where
  "last_7_days_ending now os ts =
     map fst (filter (\<lambda>r. now - 7 * day_us \<le> snd r \<and> snd r \<le> now) (zip os ts))"

definition items_of :: "order list \<Rightarrow> order_item list \<Rightarrow> order_item list" where
  "items_of os its = filter (\<lambda>i. i_order_id i \<in> o_id ` set os) its"

section \<open>Properties\<close>

subsection \<open>The library operations\<close>

lemma those_length: "those xs = Some ys \<Longrightarrow> length ys = length xs"
  by (induction xs arbitrary: ys) (auto split: option.splits)

lemma those_mem: "those xs = Some ys \<Longrightarrow> y \<in> set ys \<Longrightarrow> Some y \<in> set xs"
  by (induction xs arbitrary: ys) (auto split: option.splits)

lemma to_datetime_col_length:
  "to_datetime_col parse cs = Inr ts \<Longrightarrow> length ts = length cs"
  by (auto simp: to_datetime_col_def dest: those_length split: option.splits)

lemma to_datetime_col_Nil [simp]: "to_datetime_col parse [] = Inr []"
  by (simp add: to_datetime_col_def)

lemma to_datetime_range: "to_datetime parse c = Some t \<Longrightarrow> datetime_range t"
  by (auto simp: to_datetime_def split: option.splits if_splits)

lemma to_datetime_col_range:
  assumes "to_datetime_col parse cs = Inr ts" "t \<in> set ts"
  shows "datetime_range t"
proof -
  from assms(1) have "those (map (to_datetime parse) cs) = Some ts"
    by (auto simp: to_datetime_col_def split: option.splits)
  from those_mem [OF this assms(2)] obtain c where "to_datetime parse c = Some t"
    by auto
  then show ?thesis by (rule to_datetime_range)
qed

lemma date_of_range:
  assumes "datetime_range t"
  shows "1 \<le> date_of t" and "date_of t \<le> MAXORDINAL"
  using assms unfolding datetime_range_def date_of_def day_us_def MAXORDINAL_def by arith+

lemma int64_id: "in_int64 x \<Longrightarrow> int64 x = x"
  by (simp add: in_int64_def int64_def)

lemma groupby_sum_keys:
  "map fst (groupby_sum key col agg rows) = sort (remdups (map key rows))"
  by (simp add: groupby_sum_def comp_def)

lemma groupby_sum_key_set: "fst ` set (groupby_sum key col agg rows) = key ` set rows"
  using arg_cong [OF groupby_sum_keys, of set key col agg rows] by simp

lemma groupby_sum_distinct: "distinct (map fst (groupby_sum key col agg rows))"
  by (simp add: groupby_sum_keys)

lemma groupby_sum_mem:
  "(k, v) \<in> set (groupby_sum key col agg rows) \<longleftrightarrow>
   k \<in> key ` set rows \<and> v = agg (map col (filter (\<lambda>r. key r = k) rows))"
  by (auto simp: groupby_sum_def)

lemma groupby_sum_Nil_iff: "groupby_sum key col agg rows = [] \<longleftrightarrow> rows = []"
  by (metis groupby_sum_key_set image_is_empty set_empty)

lemma groupby_sum_length: "length (groupby_sum key col agg rows) = card (key ` set rows)"
proof -
  have "length (groupby_sum key col agg rows) = length (remdups (map key rows))"
    by (simp add: groupby_sum_def)
  also have "\<dots> = card (set (map key rows))"
    by (simp add: length_remdups_card_conv)
  finally show ?thesis by simp
qed

lemma idxmax_from_max:
  "\<exists>w. (idxmax_from k v rest, w) \<in> set ((k, v) # rest) \<and> (\<forall>p \<in> set ((k, v) # rest). snd p \<le> w)"
proof (induction rest arbitrary: k v)
  case Nil
  then show ?case by auto
next
  case (Cons p rest)
  obtain k' v' where p: "p = (k', v')" by (cases p)
  show ?case
  proof (cases "v < v'")
    case True
    from Cons.IH [of k' v'] obtain w where
      w: "(idxmax_from k' v' rest, w) \<in> set ((k', v') # rest)" "\<forall>p \<in> set ((k', v') # rest). snd p \<le> w"
      by blast
    then have "v' \<le> w" by auto
    with True have "v \<le> w" by simp
    with w True p show ?thesis by auto
  next
    case False
    from Cons.IH [of k v] obtain w where
      w: "(idxmax_from k v rest, w) \<in> set ((k, v) # rest)" "\<forall>p \<in> set ((k, v) # rest). snd p \<le> w"
      by blast
    then have "v \<le> w" by auto
    with False have "v' \<le> w" by simp
    with w False p show ?thesis by auto
  qed
qed

lemma idxmax_Inr:
  assumes "g \<noteq> []"
  shows "\<exists>k w. idxmax g = Inr k \<and> (k, w) \<in> set g \<and> (\<forall>p \<in> set g. snd p \<le> w)"
proof -
  from assms obtain k v rest where g: "g = (k, v) # rest" by (cases g) auto
  from idxmax_from_max [of k v rest] show ?thesis unfolding g by auto
qed

lemma filter_fst_zip:
  "length ts = length xs \<Longrightarrow> map fst (filter (\<lambda>z. P (fst z)) (zip xs ts)) = filter P xs"
proof -
  assume len: "length ts = length xs"
  have "map fst (filter (\<lambda>z. P (fst z)) (zip xs ts)) = filter P (map fst (zip xs ts))"
    by (simp add: filter_map comp_def)
  with len show ?thesis by simp
qed

lemma map_filter_fst_zip:
  assumes "length ts = length xs"
  shows "map (\<lambda>z. f (fst z)) (filter (\<lambda>z. P (fst z)) (zip xs ts)) = map f (filter P xs)"
proof -
  have "map (\<lambda>z. f (fst z)) (filter (\<lambda>z. P (fst z)) (zip xs ts))
        = map f (map fst (filter (\<lambda>z. P (fst z)) (zip xs ts)))"
    by (simp add: comp_def)
  then show ?thesis using filter_fst_zip [OF assms, of P] by simp
qed

lemma groupby_name_quantity:
  assumes "length ts = length rows"
  shows "(n, w) \<in> set (groupby_sum name quantity sum_int64 (zip rows ts)) \<longleftrightarrow>
         n \<in> (\<lambda>r. f_name (snd (fst r))) ` set rows \<and> w = int64 (quantity_sold n rows)"
proof -
  have keys: "name ` set (zip rows ts) = (\<lambda>r. f_name (snd (fst r))) ` set rows"
  proof -
    have "name ` set (zip rows ts) = (\<lambda>r. f_name (snd (fst r))) ` set (map fst (zip rows ts))"
      by (auto simp: name_def image_image)
    with assms show ?thesis by simp
  qed
  have "map quantity (filter (\<lambda>r. name r = n) (zip rows ts))
        = map (\<lambda>r. i_quantity (fst (fst r))) (filter (\<lambda>r. f_name (snd (fst r)) = n) rows)"
    unfolding quantity_def name_def
    using map_filter_fst_zip [OF assms, of "\<lambda>r. i_quantity (fst (fst r))" "\<lambda>r. f_name (snd (fst r)) = n"]
    by simp
  then have "sum_int64 (map quantity (filter (\<lambda>r. name r = n) (zip rows ts)))
             = int64 (quantity_sold n rows)"
    by (simp add: sum_int64_def quantity_sold_def)
  with keys show ?thesis by (simp add: groupby_sum_mem)
qed





lemma get_sales_analytics_result:
  assumes ne: "df_orders \<noteq> []" "df_order_items \<noteq> []"
    and conv: "to_datetime_col parse
                 (map (\<lambda>r. o_ordered_at (snd r)) (joined df_orders df_order_items df_flowers)) = Inr ts"
  defines "df \<equiv> zip (joined df_orders df_order_items df_flowers) ts"
  shows "\<exists>r. get_sales_analytics parse float_sum sort_values now_today now_month now_year
                 df_orders df_order_items df_flowers = Inr r
     \<and> daily_revenue r = sum_list (map total_price
               (filter (\<lambda>r. date_of (ordered_at r) = date_of now_today) df))
     \<and> monthly_revenue r = sum_list (map total_price
               (filter (\<lambda>r. month_of (date_of (ordered_at r)) = month_of (date_of now_month)
                           \<and> year_of (date_of (ordered_at r)) = year_of (date_of now_year)) df))
     \<and> top_customers r = take 5 (sort_values (groupby_sum user_id total_price float_sum df))
     \<and> (df = [] \<longrightarrow> most_sold_flower r = None)
     \<and> (df \<noteq> [] \<longrightarrow> (\<exists>n w. most_sold_flower r = Some n
                          \<and> (n, w) \<in> set (groupby_sum name quantity sum_int64 df)
                          \<and> (\<forall>p \<in> set (groupby_sum name quantity sum_int64 df). snd p \<le> w)))"
proof (cases "df = []")
  case True
  then have z: "zip (joined df_orders df_order_items df_flowers) ts = []"
    by (simp only: df_def)
  show ?thesis
    using ne conv unfolding df_def by (simp add: get_sales_analytics_def Let_def z)
next
  case False
  then have "groupby_sum name quantity sum_int64 df \<noteq> []"
    by (simp add: groupby_sum_Nil_iff)
  from idxmax_Inr [OF this] obtain n w where
    nw: "idxmax (groupby_sum name quantity sum_int64 df) = Inr n"
        "(n, w) \<in> set (groupby_sum name quantity sum_int64 df)"
        "\<forall>p \<in> set (groupby_sum name quantity sum_int64 df). snd p \<le> w"
    by blast
  have "get_sales_analytics parse float_sum sort_values now_today now_month now_year
                 df_orders df_order_items df_flowers
     = Inr \<lparr>most_sold_flower = Some n,
            daily_revenue = sum_list (map total_price
               (filter (\<lambda>r. date_of (ordered_at r) = date_of now_today) df)),
            monthly_revenue = sum_list (map total_price
               (filter (\<lambda>r. month_of (date_of (ordered_at r)) = month_of (date_of now_month)
                           \<and> year_of (date_of (ordered_at r)) = year_of (date_of now_year)) df)),
            top_customers = take 5 (sort_values (groupby_sum user_id total_price float_sum df))\<rparr>"
    using ne conv False nw(1) unfolding df_def
    by (simp add: get_sales_analytics_def Let_def)
  with False nw(2,3) show ?thesis by simp blast
qed

lemma merge_mem:
  "(l, r) \<in> set (merge left right left_on right_on) \<longleftrightarrow>
   l \<in> set left \<and> r \<in> set right \<and> left_on l = right_on r"
  by (auto simp: merge_def)

lemma joined_mem:
  "((i, f), r) \<in> set (joined df_orders df_order_items df_flowers) \<longleftrightarrow>
   i \<in> set df_order_items \<and> f \<in> set df_flowers \<and> r \<in> set df_orders
   \<and> i_flower_id i = f_id f \<and> i_order_id i = o_id r"
  by (auto simp: joined_def merge_mem)

lemma joined_item: "r \<in> set (joined df_orders df_order_items df_flowers)
   \<Longrightarrow> fst (fst r) \<in> set df_order_items"
  using joined_mem [of "fst (fst r)" "snd (fst r)" "snd r"] by simp



subsection \<open>Sorting in descending order\<close>





subsection \<open>The daily sales of the forecaster\<close>

lemma groupby_sum_map:
  "groupby_sum key col agg (map h xs) = groupby_sum (\<lambda>r. key (h r)) (\<lambda>r. col (h r)) agg xs"
  by (simp add: groupby_sum_def filter_map comp_def)

lemma zip_map_zip:
  "length ts = length xs \<Longrightarrow>
   zip (map h (zip xs ts)) ts = map (\<lambda>r. (h r, snd r)) (zip xs ts)"
  by (induction xs ts rule: list_induct2') simp_all

lemma daily_sales_converted:
  assumes "length ts = length df_orders"
  shows "daily_sales float_sum (zip (map (\<lambda>(r, t). r\<lparr>o_ordered_at := Stamp t\<rparr>) (zip df_orders ts)) ts)
         = daily_sales float_sum (zip df_orders ts)"
  unfolding daily_sales_def zip_map_zip [OF assms] groupby_sum_map
  by (simp add: case_prod_unfold)

lemma daily_sales_keys:
  assumes "length ts = length df_orders"
  shows "map fst (daily_sales float_sum (zip df_orders ts)) = sorted_list_of_set (date_of ` set ts)"
proof -
  have "map (\<lambda>r. date_of (snd r)) (zip df_orders ts) = map date_of (map snd (zip df_orders ts))"
    by simp
  also have "\<dots> = map date_of ts"
    using assms by simp
  finally have keys: "map fst (daily_sales float_sum (zip df_orders ts)) = sort (remdups (map date_of ts))"
    by (simp add: daily_sales_def groupby_sum_keys)
  have "sort (remdups (map date_of ts)) = sorted_list_of_set (set (map date_of ts))"
    by (rule sorted_list_of_set_sort_remdups [symmetric])
  with keys show ?thesis by simp
qed

lemma daily_sales_values:
  assumes "length ts = length df_orders"
  shows "map snd (daily_sales float_sum (zip df_orders ts))
         = map (revenue_on float_sum df_orders ts) (sorted_list_of_set (date_of ` set ts))"
proof -
  have "map snd (daily_sales float_sum (zip df_orders ts))
        = map (revenue_on float_sum df_orders ts) (map fst (daily_sales float_sum (zip df_orders ts)))"
    by (simp add: daily_sales_def groupby_sum_def revenue_on_def comp_def)
  then show ?thesis by (simp only: daily_sales_keys [OF assms])
qed

lemma daily_sales_length:
  assumes "length ts = length df_orders"
  shows "length (daily_sales float_sum (zip df_orders ts)) = card (date_of ` set ts)"
proof -
  have "length (daily_sales float_sum (zip df_orders ts))
        = length (map fst (daily_sales float_sum (zip df_orders ts)))"
    by simp
  also have "\<dots> = card (date_of ` set ts)"
    unfolding daily_sales_keys [OF assms] by simp
  finally show ?thesis .
qed

lemma daily_sales_last_date:
  assumes "length ts = length df_orders"
  shows "Max (set (map fst (daily_sales float_sum (zip df_orders ts)))) = Max (date_of ` set ts)"
  unfolding daily_sales_keys [OF assms] by simp

lemma forecast_loop_returns:
  assumes "0 < last_date + int i + 1" "last_date + int (i + length predictions) \<le> MAXORDINAL"
  shows "forecast_loop last_date i predictions
         = Inr (map (\<lambda>(j, pred). \<lparr>date = strftime (last_date + (int j + 1)),
                                     predicted_demand = max 0 pred\<rparr>)
                    (enumerate i predictions))"
  using assms
proof (induction predictions arbitrary: i)
  case Nil
  then show ?case by simp
next
  case (Cons pred predictions)
  from Cons.prems have day: "add_days last_date (int i + 1) = Inr (last_date + (int i + 1))"
    by (simp add: add_days_def)
  from Cons.prems have "0 < last_date + int (i + 1) + 1"
    and "last_date + int (i + 1 + length predictions) \<le> MAXORDINAL"
    by simp_all
  from Cons.IH [OF this] day show ?case by simp
qed


lemma predict_demand_result:
  fixes float_sum :: "real list \<Rightarrow> real"
  assumes ne: "df_orders \<noteq> []"
    and conv: "to_datetime_col parse (map o_ordered_at df_orders) = Inr ts"
  defines "sales \<equiv> daily_sales float_sum (zip df_orders ts)"
  shows "fst (predict_demand parse float_sum LinearRegression df_orders)
           = map (\<lambda>(r, t). r\<lparr>o_ordered_at := Stamp t\<rparr>) (zip df_orders ts)"
    and "length sales < 2 \<Longrightarrow>
           snd (predict_demand parse float_sum LinearRegression df_orders) = Inr []"
    and "\<not> length sales < 2 \<Longrightarrow>
           snd (predict_demand parse float_sum LinearRegression df_orders)
           = forecast_loop (Max (set (map fst sales))) 0
               (map (LinearRegression (map real [0 ..< length sales]) (map snd sales))
                    (map (\<lambda>i. real (length sales + i)) [0 ..< 7]))"
proof -
  have len: "length ts = length df_orders"
    using to_datetime_col_length [OF conv] by simp
  note conv' = daily_sales_converted [OF len]
  show "fst (predict_demand parse float_sum LinearRegression df_orders)
           = map (\<lambda>(r, t). r\<lparr>o_ordered_at := Stamp t\<rparr>) (zip df_orders ts)"
    using ne conv by (simp add: predict_demand_def Let_def)
  show "snd (predict_demand parse float_sum LinearRegression df_orders) = Inr []"
    if "length sales < 2"
    using ne conv that unfolding sales_def
    by (simp add: predict_demand_def Let_def conv')
  show "snd (predict_demand parse float_sum LinearRegression df_orders)
           = forecast_loop (Max (set (map fst sales))) 0
               (map (LinearRegression (map real [0 ..< length sales]) (map snd sales))
                    (map (\<lambda>i. real (length sales + i)) [0 ..< 7]))"
    if "\<not> length sales < 2"
    using ne conv that unfolding sales_def
    by (simp add: predict_demand_def Let_def conv')
qed

lemma last_date_range:
  assumes conv: "to_datetime_col parse cs = Inr ts" and ne: "ts \<noteq> []"
  shows "1 \<le> Max (date_of ` set ts)" and "Max (date_of ` set ts) \<le> MAXORDINAL"
proof -
  have fin: "finite (date_of ` set ts)" and nonempty: "date_of ` set ts \<noteq> {}"
    using ne by simp_all
  from Max_in [OF fin nonempty] obtain t where t: "t \<in> set ts"
    and m: "Max (date_of ` set ts) = date_of t"
    by auto
  from to_datetime_col_range [OF conv t] have "datetime_range t" .
  from date_of_range [OF this] m
  show "1 \<le> Max (date_of ` set ts)" and "Max (date_of ` set ts) \<le> MAXORDINAL"
    by simp_all
qed

text \<open>
  The forecast, point by point: when at least two order dates remain and the seventh day
  after the last of them is a date, \<open>predict_demand\<close> returns seven points, and point
  \<open>i\<close> carries the date of the last observed day plus \<open>i + 1\<close> days and the
  prediction of the regression at \<open>k + i\<close>, or 0 if that is negative. The regression
  has been fitted to the indices \<open>0, \<dots>, k - 1\<close> and the revenues of the \<open>k\<close>
  order dates in chronological order.
\<close>

lemma predict_demand_forecast_points:
  fixes float_sum :: "real list \<Rightarrow> real"
  assumes conv: "to_datetime_col parse (map o_ordered_at df_orders) = Inr ts"
    and two: "2 \<le> card (date_of ` set ts)"
    and fits: "Max (date_of ` set ts) + 7 \<le> MAXORDINAL"
  defines "days \<equiv> sorted_list_of_set (date_of ` set ts)"
  defines "y \<equiv> map (revenue_on float_sum df_orders ts) days"
  shows "snd (predict_demand parse float_sum LinearRegression df_orders)
     = Inr (map (\<lambda>i. \<lparr>date = strftime (Max (date_of ` set ts) + (int i + 1)),
                        predicted_demand =
                          max 0 (LinearRegression (map real [0 ..< length days]) y
                                   (real (length days + i)))\<rparr>)
                [0 ..< 7])"
proof -
  from two have tne: "ts \<noteq> []" by auto
  then have ne: "df_orders \<noteq> []"
    using to_datetime_col_length [OF conv] by auto
  have len: "length ts = length df_orders"
    using to_datetime_col_length [OF conv] by simp
  define sales where "sales = daily_sales float_sum (zip df_orders ts)"
  define k where "k = length sales"
  have k_card: "k = card (date_of ` set ts)"
    unfolding k_def sales_def by (rule daily_sales_length [OF len])
  have k_days: "k = length days"
    unfolding k_card days_def by simp
  have vals: "map snd sales = y"
    unfolding sales_def y_def days_def by (rule daily_sales_values [OF len])
  have last: "Max (set (map fst sales)) = Max (date_of ` set ts)"
    unfolding sales_def by (rule daily_sales_last_date [OF len])
  define predictions where
    "predictions = map (LinearRegression (map real [0 ..< k]) y) (map (\<lambda>i. real (k + i)) [0 ..< 7])"
  have l7: "length predictions = 7"
    by (simp add: predictions_def)
  from two k_card have "\<not> length sales < 2" by (simp add: k_def)
  from predict_demand_result(3) [OF ne conv, where float_sum = float_sum
      and LinearRegression = LinearRegression, folded sales_def, OF this]
  have res: "snd (predict_demand parse float_sum LinearRegression df_orders)
             = forecast_loop (Max (date_of ` set ts)) 0 predictions"
    unfolding predictions_def k_def [symmetric] vals last .
  from last_date_range(1) [OF conv tne] have "0 < Max (date_of ` set ts) + int 0 + 1"
    by simp
  moreover from fits l7 have "Max (date_of ` set ts) + int (0 + length predictions) \<le> MAXORDINAL"
    by simp
  ultimately have "forecast_loop (Max (date_of ` set ts)) 0 predictions
     = Inr (map (\<lambda>(j, pred). \<lparr>date = strftime (Max (date_of ` set ts) + (int j + 1)),
                                 predicted_demand = max 0 pred\<rparr>)
                (enumerate 0 predictions))"
    by (rule forecast_loop_returns)
  also have "map (\<lambda>(j, pred). \<lparr>date = strftime (Max (date_of ` set ts) + (int j + 1)),
                                 predicted_demand = max 0 pred\<rparr>)
                (enumerate 0 predictions)
     = map (\<lambda>i. \<lparr>date = strftime (Max (date_of ` set ts) + (int i + 1)),
                        predicted_demand =
                          max 0 (LinearRegression (map real [0 ..< length days]) y
                                   (real (length days + i)))\<rparr>)
                [0 ..< 7]"
    by (rule nth_equalityI) (simp_all add: l7 nth_enumerate_eq predictions_def k_days)
  finally show ?thesis using res by simp
qed

subsection \<open>Months, seasons and the search for a name\<close>

lemma month_of_range: "1 \<le> month_of d \<and> month_of d \<le> 12"
proof -
  define r where "r = (d - 1) mod 146097 mod 36524 mod 1461 mod 365"
  have r: "0 \<le> r" "r < 365" by (simp_all add: r_def)
  define month where "month = (r + 50) div 32"
  have m: "1 \<le> month" "month \<le> 12" using r unfolding month_def by presburger+
  have first: "DAYS_BEFORE_MONTH ! nat month = 0" if "month = 1"
    using that by (simp add: DAYS_BEFORE_MONTH_def)
  have late: "2 \<le> month"
    if "r < DAYS_BEFORE_MONTH ! nat month + (if 2 < month \<and> leap then 1 else 0)" for leap
  proof (rule ccontr)
    assume "\<not> 2 \<le> month"
    with m have "month = 1" by simp
    with that first r show False by simp
  qed
  have pick: "fst (snd (if a then (y, 12, z) else if p then (y', m1, z1) else (y', m2, z2)))
              = (if a then 12 else if p then m1 else m2)"
    for a p and y y' z z1 z2 m1 m2 :: int
    by simp
  have key: "1 \<le> (if a then 12 else if p then month - 1 else month)
             \<and> (if a then 12 else if p then month - 1 else month) \<le> 12"
    if "p \<Longrightarrow> 2 \<le> month" for a p
    using that m by auto
  show ?thesis
    unfolding month_of_def ord2ymd_def Let_def pick r_def [symmetric] month_def [symmetric]
    by (rule key) (rule late)
qed

lemma search_iff: "search pat s \<longleftrightarrow> (\<exists>pre post. s = pre @ pat @ post)"
proof (induction s)
  case Nil
  then show ?case by simp
next
  case (Cons c cs)
  show ?case
  proof
    assume "search pat (c # cs)"
    then consider "prefix pat (c # cs)" | "search pat cs" by auto
    then show "\<exists>pre post. c # cs = pre @ pat @ post"
    proof cases
      case 1
      then obtain post where "c # cs = pat @ post" by (auto simp: prefix_def)
      then have "c # cs = [] @ pat @ post" by simp
      then show ?thesis by blast
    next
      case 2
      with Cons.IH obtain pre post where "cs = pre @ pat @ post" by blast
      then have "c # cs = (c # pre) @ pat @ post" by simp
      then show ?thesis by blast
    qed
  next
    assume "\<exists>pre post. c # cs = pre @ pat @ post"
    then obtain pre post where eq: "c # cs = pre @ pat @ post" by blast
    show "search pat (c # cs)"
    proof (cases pre)
      case Nil
      with eq have "prefix pat (c # cs)" by (simp add: prefix_def)
      then show ?thesis by simp
    next
      case (Cons x pre')
      with eq have "cs = pre' @ pat @ post" by simp
      with Cons.IH have "search pat cs" by blast
      then show ?thesis by simp
    qed
  qed
qed

lemma str_contains_iff:
  "names \<noteq> [] \<Longrightarrow> str_contains names s \<longleftrightarrow> (\<exists>n \<in> set names. occurs_in n s)"
  by (simp add: str_contains_def list_ex_iff search_iff occurs_in_def)

lemma current_season_table:
  "m \<in> {12, 1, 2} \<Longrightarrow>
     current_season m seasonal_map = [''Poinsettia'', ''Winter Jasmine'', ''Amaryllis'']"
  "m \<in> {3, 4, 5} \<Longrightarrow> current_season m seasonal_map = [''Tulip'', ''Daffodil'', ''Peony'']"
  "m \<in> {6, 7, 8} \<Longrightarrow> current_season m seasonal_map = [''Sunflower'', ''Rose'', ''Lavender'']"
  "m \<in> {9, 10, 11} \<Longrightarrow>
     current_season m seasonal_map = [''Chrysanthemum'', ''Marigold'', ''Dahlia'']"
  by (auto simp: seasonal_map_def)

lemma month_cases:
  "month_of d \<in> {12, 1, 2} \<or> month_of d \<in> {3, 4, 5} \<or> month_of d \<in> {6, 7, 8}
   \<or> month_of d \<in> {9, 10, 11}"
  using month_of_range [of d] by (simp) presburger

lemma get_recommendations_result:
  fixes uid :: int and df_order_items :: "order_item list" and now_window :: timestamp
  assumes ne: "df_orders \<noteq> []" "df_flowers \<noteq> []"
    and conv: "to_datetime_col parse (map o_ordered_at df_orders) = Inr ts"
  defines "user_items \<equiv>
     filter (\<lambda>i. i_order_id i \<in> set (map o_id (filter (\<lambda>r. o_user_id r = uid) df_orders)))
       df_order_items"
  defines "recent_orders \<equiv>
     map fst (filter (\<lambda>r. now_window - 7 * day_us \<le> snd r) (zip df_orders ts))"
  defines "recent_items \<equiv>
     filter (\<lambda>i. i_order_id i \<in> set (map o_id recent_orders)) df_order_items"
  shows "\<exists>r. get_recommendations parse sort_values now_window now_season uid
                df_orders df_order_items df_flowers = Inr r
     \<and> most_purchased r =
          (if filter (\<lambda>r. o_user_id r = uid) df_orders \<noteq> [] \<and> user_items \<noteq> []
           then records_of df_flowers (top_flower_ids sort_values user_items) else [])
     \<and> trending r =
          (if recent_orders \<noteq> [] \<and> recent_items \<noteq> []
           then records_of df_flowers (top_flower_ids sort_values recent_items) else [])
     \<and> seasonal r =
          filter (\<lambda>f. str_contains (current_season (month_of (date_of now_season)) seasonal_map)
                        (f_name f)) df_flowers"
  using ne conv
  unfolding user_items_def recent_items_def recent_orders_def
  by (simp add: get_recommendations_def Let_def image_image cong del: if_weak_cong)

lemma those_map_Some: "those (map Some xs) = Some xs"
  by (induction xs) simp_all

lemma quantity_sold_absent:
  "n \<notin> (\<lambda>r. f_name (snd (fst r))) ` set rows \<Longrightarrow> quantity_sold n rows = 0"
proof -
  assume "n \<notin> (\<lambda>r. f_name (snd (fst r))) ` set rows"
  then have "filter (\<lambda>r. f_name (snd (fst r)) = n) rows = []"
    by (auto simp: filter_empty_conv)
  then show ?thesis by (simp add: quantity_sold_def)
qed

lemma quantity_sold_nonneg:
  "\<forall>r \<in> set rows. 0 \<le> i_quantity (fst (fst r)) \<Longrightarrow> 0 \<le> quantity_sold n rows"
  unfolding quantity_sold_def by (intro sum_list_nonneg) auto

subsection \<open>Empty snapshots\<close>

text \<open>
  C7. When Orders is empty or OrderItems is empty, \<open>get_sales_analytics\<close> returns the
  zero result: no most sold flower, both revenues 0, no top customers. It does so
  whatever the parser, the summation, the sorting routine, the clock and the catalogue
  are, before any join or conversion: it cannot raise.
\<close>

theorem get_sales_analytics_empty_input:
  "df_orders = [] \<or> df_order_items = [] \<Longrightarrow>
   get_sales_analytics parse float_sum sort_values now_today now_month now_year
       df_orders df_order_items df_flowers
     = Inr \<lparr>most_sold_flower = None, daily_revenue = 0, monthly_revenue = 0,
            top_customers = []\<rparr>"
  by (simp add: get_sales_analytics_def)

theorem get_sales_analytics_empty_input_witness:
  "([\<lparr>o_id = 1, o_user_id = 7, o_ordered_at = Text ''not a date''\<rparr>] = []
      \<or> ([] :: order_item list) = []) \<and>
   get_sales_analytics (\<lambda>s. None) sum_list sort_values_desc 0 0 0
       [\<lparr>o_id = 1, o_user_id = 7, o_ordered_at = Text ''not a date''\<rparr>] []
       [\<lparr>f_id = 1, f_name = ''Rose'', f_price = 3\<rparr>]
     = Inr \<lparr>most_sold_flower = None, daily_revenue = 0, monthly_revenue = 0,
            top_customers = []\<rparr>"
  using get_sales_analytics_empty_input
    [of "[\<lparr>o_id = 1, o_user_id = 7, o_ordered_at = Text ''not a date''\<rparr>]" "[]"
      "\<lambda>s. None" sum_list sort_values_desc 0 0 0 "[\<lparr>f_id = 1, f_name = ''Rose'', f_price = 3\<rparr>]"]
  by simp

text \<open>
  C10. When Orders is empty or Flowers is empty, \<open>get_recommendations\<close> returns three
  empty lists. The witness has no orders and a catalogue with a flower of the season
  (June): its seasonal list is empty all the same.
\<close>

theorem get_recommendations_empty_input:
  "df_orders = [] \<or> df_flowers = [] \<Longrightarrow>
   get_recommendations parse sort_values now_window now_season uid
       df_orders df_order_items df_flowers
     = Inr \<lparr>most_purchased = [], seasonal = [], trending = []\<rparr>"
  by (simp add: get_recommendations_def)

theorem get_recommendations_empty_input_witness:
  "(([] :: order list) = [] \<or> [\<lparr>f_id = 1, f_name = ''Red Rose Bouquet'', f_price = 3\<rparr>] = []) \<and>
   month_of (date_of (midnight 739052)) = 6 \<and>
   str_contains (current_season 6 seasonal_map) ''Red Rose Bouquet'' \<and>
   get_recommendations (\<lambda>s. None) sort_values_desc (midnight 739052) (midnight 739052) 7 []
       [\<lparr>i_order_id = 1, i_flower_id = 1, i_quantity = 2, i_total_price = 6\<rparr>]
       [\<lparr>f_id = 1, f_name = ''Red Rose Bouquet'', f_price = 3\<rparr>]
     = Inr \<lparr>most_purchased = [], seasonal = [], trending = []\<rparr>"
proof -
  have "month_of (date_of (midnight 739052)) = 6"
    by code_simp
  moreover have "str_contains (current_season 6 seasonal_map) ''Red Rose Bouquet''"
    by code_simp
  ultimately show ?thesis
    using get_recommendations_empty_input
      [of "[]" "[\<lparr>f_id = 1, f_name = ''Red Rose Bouquet'', f_price = 3\<rparr>]"
        "\<lambda>s. None" sort_values_desc "midnight 739052" "midnight 739052" 7
        "[\<lparr>i_order_id = 1, i_flower_id = 1, i_quantity = 2, i_total_price = 6\<rparr>]"]
    by simp
qed

subsection \<open>Revenues\<close>




subsection \<open>The most sold flower\<close>

text \<open>
  C2, with the precondition it needs. When Orders and OrderItems are not empty, the join
  is not empty, every conversion of ordered_at succeeds and the summed quantity of every
  flower name of the join is a number that an int64 holds, \<open>get_sales_analytics\<close>
  returns as \<open>most_sold_flower\<close> a flower name of the join whose summed quantity over
  the joined rows is at least the summed quantity of every flower name of the join; when
  no quantity is negative, it is at least the summed quantity of every name whatsoever.
\<close>

theorem most_sold_flower_is_maximal:
  assumes ne: "df_orders \<noteq> []" "df_order_items \<noteq> []"
    and join: "joined df_orders df_order_items df_flowers \<noteq> []"
    and conv: "to_datetime_col parse
                 (map (\<lambda>r. o_ordered_at (snd r)) (joined df_orders df_order_items df_flowers)) = Inr ts"
    and fits: "\<forall>n \<in> (\<lambda>r. f_name (snd (fst r))) ` set (joined df_orders df_order_items df_flowers).
                 in_int64 (quantity_sold n (joined df_orders df_order_items df_flowers))"
  shows "\<exists>r n. get_sales_analytics parse float_sum sort_values now_today now_month now_year
                  df_orders df_order_items df_flowers = Inr r
     \<and> most_sold_flower r = Some n
     \<and> n \<in> (\<lambda>r. f_name (snd (fst r))) ` set (joined df_orders df_order_items df_flowers)
     \<and> (\<forall>n' \<in> (\<lambda>r. f_name (snd (fst r))) ` set (joined df_orders df_order_items df_flowers).
           quantity_sold n' (joined df_orders df_order_items df_flowers)
           \<le> quantity_sold n (joined df_orders df_order_items df_flowers))
     \<and> ((\<forall>i \<in> set df_order_items. 0 \<le> i_quantity i) \<longrightarrow>
          (\<forall>n'. quantity_sold n' (joined df_orders df_order_items df_flowers)
                \<le> quantity_sold n (joined df_orders df_order_items df_flowers)))"
proof -
  define J where "J = joined df_orders df_order_items df_flowers"
  define names where "names = (\<lambda>r. f_name (snd (fst r))) ` set J"
  have len: "length ts = length J"
    using to_datetime_col_length [OF conv] by (simp add: J_def)
  with join have df: "zip J ts \<noteq> []" by (cases J; cases ts) (simp_all add: J_def)
  have exact: "int64 (quantity_sold n J) = quantity_sold n J" if "n \<in> names" for n
    using fits that unfolding J_def [symmetric] names_def [symmetric]
    by (simp add: int64_id)
  note res = get_sales_analytics_result
    [OF ne conv, of float_sum sort_values now_today now_month now_year, folded J_def]
  from res obtain r where r: "get_sales_analytics parse float_sum sort_values now_today now_month
                  now_year df_orders df_order_items df_flowers = Inr r"
    and some: "zip J ts \<noteq> [] \<longrightarrow> (\<exists>n w. most_sold_flower r = Some n
                          \<and> (n, w) \<in> set (groupby_sum name quantity sum_int64 (zip J ts))
                          \<and> (\<forall>p \<in> set (groupby_sum name quantity sum_int64 (zip J ts)). snd p \<le> w))"
    by blast
  from some df obtain n w where ms: "most_sold_flower r = Some n"
    and mem: "(n, w) \<in> set (groupby_sum name quantity sum_int64 (zip J ts))"
    and mx: "\<forall>p \<in> set (groupby_sum name quantity sum_int64 (zip J ts)). snd p \<le> w"
    by blast
  from mem have n: "n \<in> names" and "w = int64 (quantity_sold n J)"
    by (simp_all add: groupby_name_quantity [OF len] names_def)
  with exact have w: "w = quantity_sold n J" by simp
  have best: "quantity_sold n' J \<le> quantity_sold n J" if "n' \<in> names" for n'
  proof -
    from that
    have "(n', int64 (quantity_sold n' J)) \<in> set (groupby_sum name quantity sum_int64 (zip J ts))"
      by (simp add: groupby_name_quantity [OF len] names_def)
    with mx have "snd (n', int64 (quantity_sold n' J)) \<le> w" by (rule bspec)
    with w exact [OF that] show ?thesis by simp
  qed
  have all: "quantity_sold n' J \<le> quantity_sold n J"
    if pos: "\<forall>i \<in> set df_order_items. 0 \<le> i_quantity i" for n'
  proof (cases "n' \<in> names")
    case True
    then show ?thesis by (rule best)
  next
    case False
    have "\<forall>r \<in> set J. 0 \<le> i_quantity (fst (fst r))"
    proof
      fix r assume "r \<in> set J"
      then have "fst (fst r) \<in> set df_order_items"
        unfolding J_def by (rule joined_item)
      with pos show "0 \<le> i_quantity (fst (fst r))" by simp
    qed
    then have "0 \<le> quantity_sold n J" by (rule quantity_sold_nonneg)
    with False show ?thesis by (simp add: quantity_sold_absent names_def)
  qed
  have c4: "\<forall>n' \<in> names. quantity_sold n' J \<le> quantity_sold n J"
    using best by (intro ballI)
  have c5: "(\<forall>i \<in> set df_order_items. 0 \<le> i_quantity i) \<longrightarrow>
            (\<forall>n'. quantity_sold n' J \<le> quantity_sold n J)"
    using all by (intro impI allI)
  from r ms n c4 c5 have
    "get_sales_analytics parse float_sum sort_values now_today now_month now_year
        df_orders df_order_items df_flowers = Inr r
     \<and> most_sold_flower r = Some n \<and> n \<in> names
     \<and> (\<forall>n' \<in> names. quantity_sold n' J \<le> quantity_sold n J)
     \<and> ((\<forall>i \<in> set df_order_items. 0 \<le> i_quantity i) \<longrightarrow>
            (\<forall>n'. quantity_sold n' J \<le> quantity_sold n J))"
    by (intro conjI)
  then show ?thesis
    unfolding names_def J_def by (intro exI)
qed

theorem most_sold_flower_is_maximal_witness:
  "shop_orders \<noteq> [] \<and> shop_items \<noteq> [] \<and>
   joined shop_orders shop_items shop_flowers \<noteq> [] \<and>
   to_datetime_col parse_iso_date
     (map (\<lambda>r. o_ordered_at (snd r)) (joined shop_orders shop_items shop_flowers))
     = Inr [63854010000000000, 63854010000000000, 63852796800000000, 63844761600000000] \<and>
   (\<lambda>r. f_name (snd (fst r))) ` set (joined shop_orders shop_items shop_flowers)
     = {''Rose'', ''Tulip''} \<and>
   in_int64 (quantity_sold ''Rose'' (joined shop_orders shop_items shop_flowers)) \<and>
   in_int64 (quantity_sold ''Tulip'' (joined shop_orders shop_items shop_flowers)) \<and>
   (\<exists>r n. get_sales_analytics parse_iso_date sum_list sort_values_desc noon noon noon
                  shop_orders shop_items shop_flowers = Inr r
     \<and> most_sold_flower r = Some n
     \<and> n \<in> (\<lambda>r. f_name (snd (fst r))) ` set (joined shop_orders shop_items shop_flowers)
     \<and> (\<forall>n' \<in> (\<lambda>r. f_name (snd (fst r))) ` set (joined shop_orders shop_items shop_flowers).
           quantity_sold n' (joined shop_orders shop_items shop_flowers)
           \<le> quantity_sold n (joined shop_orders shop_items shop_flowers))
     \<and> ((\<forall>i \<in> set shop_items. 0 \<le> i_quantity i) \<longrightarrow>
          (\<forall>n'. quantity_sold n' (joined shop_orders shop_items shop_flowers)
                \<le> quantity_sold n (joined shop_orders shop_items shop_flowers)))) \<and>
   get_sales_analytics parse_iso_date sum_list sort_values_desc noon noon noon
       shop_orders shop_items shop_flowers
     = Inr \<lparr>most_sold_flower = Some ''Rose'', daily_revenue = 16, monthly_revenue = 36,
            top_customers = [(8, 20), (7, 18)]\<rparr> \<and>
   quantity_sold ''Rose'' (joined shop_orders shop_items shop_flowers) = 7 \<and>
   quantity_sold ''Tulip'' (joined shop_orders shop_items shop_flowers) = 6"
proof -
  have h1: "shop_orders \<noteq> []"
    by (simp add: shop_orders_def)
  have h2: "shop_items \<noteq> []"
    by (simp add: shop_items_def)
  have h3: "joined shop_orders shop_items shop_flowers \<noteq> []"
    by code_simp
  have h4: "to_datetime_col parse_iso_date
     (map (\<lambda>r. o_ordered_at (snd r)) (joined shop_orders shop_items shop_flowers))
     = Inr [63854010000000000, 63854010000000000, 63852796800000000, 63844761600000000]"
    by code_simp
  have names: "(\<lambda>r. f_name (snd (fst r))) ` set (joined shop_orders shop_items shop_flowers)
     = {''Rose'', ''Tulip''}"
    by code_simp
  have q1: "quantity_sold ''Rose'' (joined shop_orders shop_items shop_flowers) = 7"
    by code_simp
  have q2: "quantity_sold ''Tulip'' (joined shop_orders shop_items shop_flowers) = 6"
    by code_simp
  have f1: "in_int64 (quantity_sold ''Rose'' (joined shop_orders shop_items shop_flowers))"
    unfolding q1 by (simp add: in_int64_def)
  have f2: "in_int64 (quantity_sold ''Tulip'' (joined shop_orders shop_items shop_flowers))"
    unfolding q2 by (simp add: in_int64_def)
  have h5: "\<forall>n \<in> (\<lambda>r. f_name (snd (fst r))) ` set (joined shop_orders shop_items shop_flowers).
              in_int64 (quantity_sold n (joined shop_orders shop_items shop_flowers))"
    unfolding names using f1 f2 by simp
  have ev: "get_sales_analytics parse_iso_date sum_list sort_values_desc noon noon noon
       shop_orders shop_items shop_flowers
     = Inr \<lparr>most_sold_flower = Some ''Rose'', daily_revenue = 16, monthly_revenue = 36,
            top_customers = [(8, 20), (7, 18)]\<rparr>"
    by code_simp
  note most_sold_flower_is_maximal [OF h1 h2 h3 h4 h5, of sum_list sort_values_desc noon noon noon]
  with h1 h2 h3 h4 names f1 f2 ev q1 q2 show ?thesis by (intro conjI)
qed

text \<open>
  The claim as it is stated, for every input, fails when a sum of quantities leaves the
  int64 numbers. One order holds two lines of \<open>2^62\<close> roses and a line of one tulip:
  the roses sum to \<open>2^63\<close>, which the int64 column holds as \<open>-2^63\<close>, and the most
  sold flower is Tulip, with the summed quantity 1.
\<close>

theorem most_sold_flower_int64_overflow:
  "bulk_orders \<noteq> [] \<and> bulk_items \<noteq> [] \<and>
   joined bulk_orders bulk_items shop_flowers \<noteq> [] \<and>
   to_datetime_col parse_iso_date
     (map (\<lambda>r. o_ordered_at (snd r)) (joined bulk_orders bulk_items shop_flowers))
     = Inr [noon, noon, noon] \<and>
   get_sales_analytics parse_iso_date sum_list sort_values_desc noon noon noon
       bulk_orders bulk_items shop_flowers
     = Inr \<lparr>most_sold_flower = Some ''Tulip'', daily_revenue = 4, monthly_revenue = 4,
            top_customers = [(7, 4)]\<rparr> \<and>
   quantity_sold ''Tulip'' (joined bulk_orders bulk_items shop_flowers) = 1 \<and>
   quantity_sold ''Rose'' (joined bulk_orders bulk_items shop_flowers) = 9223372036854775808 \<and>
   sum_int64 [2 ^ 62, 2 ^ 62] = - 9223372036854775808"
proof -
  have a: "bulk_orders \<noteq> []"
    by (simp add: bulk_orders_def)
  have b: "bulk_items \<noteq> []"
    by (simp add: bulk_items_def)
  have c: "joined bulk_orders bulk_items shop_flowers \<noteq> []"
    by code_simp
  have d: "to_datetime_col parse_iso_date
     (map (\<lambda>r. o_ordered_at (snd r)) (joined bulk_orders bulk_items shop_flowers))
     = Inr [noon, noon, noon]"
    by code_simp
  have e: "get_sales_analytics parse_iso_date sum_list sort_values_desc noon noon noon
       bulk_orders bulk_items shop_flowers
     = Inr \<lparr>most_sold_flower = Some ''Tulip'', daily_revenue = 4, monthly_revenue = 4,
            top_customers = [(7, 4)]\<rparr>"
    by code_simp
  have f: "quantity_sold ''Tulip'' (joined bulk_orders bulk_items shop_flowers) = 1"
    by code_simp
  have g: "quantity_sold ''Rose'' (joined bulk_orders bulk_items shop_flowers) = 9223372036854775808"
    by code_simp
  have h: "sum_int64 [2 ^ 62, 2 ^ 62] = - 9223372036854775808"
    by code_simp
  from a b c d e f g h show ?thesis by (intro conjI)
qed

subsection \<open>The top customers\<close>




subsection \<open>The forecast\<close>




subsection \<open>The frame that predict_demand leaves behind\<close>

text \<open>
  C4 does not hold of \<open>predict_demand\<close>: the call assigns the converted column to the
  frame of its caller. Given an order whose ordered_at is the string 2024-01-08, the
  frame holds a timestamp in that cell after the call. A frame whose cells are
  timestamps already is left as it was.
\<close>

theorem predict_demand_overwrites_ordered_at:
  "predict_demand parse_iso_date float_sum LinearRegression
     [\<lparr>o_id = 1, o_user_id = 7, o_ordered_at = Text ''2024-01-08'', o_total_price = 30\<rparr>]
   = ([\<lparr>o_id = 1, o_user_id = 7, o_ordered_at = Stamp (midnight 738893), o_total_price = 30\<rparr>],
      Inr []) \<and>
   fst (predict_demand parse_iso_date float_sum LinearRegression
     [\<lparr>o_id = 1, o_user_id = 7, o_ordered_at = Text ''2024-01-08'', o_total_price = 30\<rparr>])
   \<noteq> [\<lparr>o_id = 1, o_user_id = 7, o_ordered_at = Text ''2024-01-08'', o_total_price = 30\<rparr>]"
  by code_simp

lemma predict_demand_keeps_timestamps:
  assumes "\<forall>r \<in> set df_orders. \<exists>t. o_ordered_at r = Stamp t \<and> datetime_range t"
  shows "fst (predict_demand parse float_sum LinearRegression df_orders) = df_orders"
proof (cases "df_orders = []")
  case True
  then show ?thesis by (simp add: predict_demand_def)
next
  case False
  define ts where "ts = map (\<lambda>r. case o_ordered_at r of Stamp t \<Rightarrow> t | Text s \<Rightarrow> 0) df_orders"
  have "map (to_datetime parse) (map o_ordered_at df_orders) = map Some ts"
    using assms by (auto simp: ts_def to_datetime_def)
  then have conv: "to_datetime_col parse (map o_ordered_at df_orders) = Inr ts"
    by (simp add: to_datetime_col_def those_map_Some)
  have "map (\<lambda>(r, t). r\<lparr>o_ordered_at := Stamp t\<rparr>) (zip df_orders ts) = df_orders"
    using assms unfolding ts_def
    by (induction df_orders) auto
  with predict_demand_result(1) [OF False conv] show ?thesis by simp
qed

subsection \<open>The seasonal list\<close>

text \<open>
  C6. When Orders and Flowers are not empty and every conversion of ordered_at succeeds,
  \<open>get_recommendations\<close> returns, the month of the clock falls in one of the four groups
  of months, and the seasonal list is the catalogue filtered, in its order and without a
  cap, by "some name of the group's catalogue occurs in the flower's name, case
  ignored". In the witness the month is June: Red Rose Bouquet, sunflower, LAVENDER pot
  and Rose are listed, Tulip Mix is not.
\<close>

theorem seasonal_is_catalogue_filter:
  fixes now_season :: timestamp
  assumes ne: "df_orders \<noteq> []" "df_flowers \<noteq> []"
    and conv: "to_datetime_col parse (map o_ordered_at df_orders) = Inr ts"
  defines "m \<equiv> month_of (date_of now_season)"
  shows "\<exists>r. get_recommendations parse sort_values now_window now_season uid
                df_orders df_order_items df_flowers = Inr r
     \<and> (m \<in> {12, 1, 2} \<or> m \<in> {3, 4, 5} \<or> m \<in> {6, 7, 8} \<or> m \<in> {9, 10, 11})
     \<and> (m \<in> {12, 1, 2} \<longrightarrow> seasonal r =
           filter (\<lambda>f. \<exists>n \<in> set [''Poinsettia'', ''Winter Jasmine'', ''Amaryllis''].
                          occurs_in n (f_name f)) df_flowers)
     \<and> (m \<in> {3, 4, 5} \<longrightarrow> seasonal r =
           filter (\<lambda>f. \<exists>n \<in> set [''Tulip'', ''Daffodil'', ''Peony''].
                          occurs_in n (f_name f)) df_flowers)
     \<and> (m \<in> {6, 7, 8} \<longrightarrow> seasonal r =
           filter (\<lambda>f. \<exists>n \<in> set [''Sunflower'', ''Rose'', ''Lavender''].
                          occurs_in n (f_name f)) df_flowers)
     \<and> (m \<in> {9, 10, 11} \<longrightarrow> seasonal r =
           filter (\<lambda>f. \<exists>n \<in> set [''Chrysanthemum'', ''Marigold'', ''Dahlia''].
                          occurs_in n (f_name f)) df_flowers)"
proof -
  from get_recommendations_result [OF ne conv, where sort_values = sort_values and now_window = now_window
      and now_season = now_season and uid = uid and df_order_items = df_order_items]
  obtain r where r: "get_recommendations parse sort_values now_window now_season uid
                df_orders df_order_items df_flowers = Inr r"
    and s: "seasonal r = filter (\<lambda>f. str_contains (current_season m seasonal_map) (f_name f))
                           df_flowers"
    unfolding m_def by blast
  have c0: "m \<in> {12, 1, 2} \<or> m \<in> {3, 4, 5} \<or> m \<in> {6, 7, 8} \<or> m \<in> {9, 10, 11}"
    unfolding m_def by (rule month_cases)
  have c1: "m \<in> {12, 1, 2} \<longrightarrow> seasonal r =
           filter (\<lambda>f. \<exists>n \<in> set [''Poinsettia'', ''Winter Jasmine'', ''Amaryllis''].
                          occurs_in n (f_name f)) df_flowers"
    unfolding s by (intro impI) (simp add: current_season_table str_contains_iff)
  have c2: "m \<in> {3, 4, 5} \<longrightarrow> seasonal r =
           filter (\<lambda>f. \<exists>n \<in> set [''Tulip'', ''Daffodil'', ''Peony''].
                          occurs_in n (f_name f)) df_flowers"
    unfolding s by (intro impI) (simp add: current_season_table str_contains_iff)
  have c3: "m \<in> {6, 7, 8} \<longrightarrow> seasonal r =
           filter (\<lambda>f. \<exists>n \<in> set [''Sunflower'', ''Rose'', ''Lavender''].
                          occurs_in n (f_name f)) df_flowers"
    unfolding s by (intro impI) (simp add: current_season_table str_contains_iff)
  have c4: "m \<in> {9, 10, 11} \<longrightarrow> seasonal r =
           filter (\<lambda>f. \<exists>n \<in> set [''Chrysanthemum'', ''Marigold'', ''Dahlia''].
                          occurs_in n (f_name f)) df_flowers"
    unfolding s by (intro impI) (simp add: current_season_table str_contains_iff)
  from r c0 c1 c2 c3 c4 show ?thesis by (intro exI [of _ r] conjI)
qed

theorem seasonal_is_catalogue_filter_witness:
  "shop_orders \<noteq> [] \<and> garden_flowers \<noteq> [] \<and>
   to_datetime_col parse_iso_date (map o_ordered_at shop_orders)
     = Inr [midnight 739052 + 3600000000, midnight 739038, midnight 738945] \<and>
   month_of (date_of noon) = 6 \<and>
   (\<exists>r. get_recommendations parse_iso_date sort_values_desc noon noon 7
                shop_orders shop_items garden_flowers = Inr r
     \<and> (month_of (date_of noon) \<in> {12, 1, 2} \<or> month_of (date_of noon) \<in> {3, 4, 5}
          \<or> month_of (date_of noon) \<in> {6, 7, 8} \<or> month_of (date_of noon) \<in> {9, 10, 11})
     \<and> (month_of (date_of noon) \<in> {12, 1, 2} \<longrightarrow> seasonal r =
           filter (\<lambda>f. \<exists>n \<in> set [''Poinsettia'', ''Winter Jasmine'', ''Amaryllis''].
                          occurs_in n (f_name f)) garden_flowers)
     \<and> (month_of (date_of noon) \<in> {3, 4, 5} \<longrightarrow> seasonal r =
           filter (\<lambda>f. \<exists>n \<in> set [''Tulip'', ''Daffodil'', ''Peony''].
                          occurs_in n (f_name f)) garden_flowers)
     \<and> (month_of (date_of noon) \<in> {6, 7, 8} \<longrightarrow> seasonal r =
           filter (\<lambda>f. \<exists>n \<in> set [''Sunflower'', ''Rose'', ''Lavender''].
                          occurs_in n (f_name f)) garden_flowers)
     \<and> (month_of (date_of noon) \<in> {9, 10, 11} \<longrightarrow> seasonal r =
           filter (\<lambda>f. \<exists>n \<in> set [''Chrysanthemum'', ''Marigold'', ''Dahlia''].
                          occurs_in n (f_name f)) garden_flowers)) \<and>
   map f_name (seasonal (projr (get_recommendations parse_iso_date sort_values_desc noon noon 7
                shop_orders shop_items garden_flowers)))
     = [''Red Rose Bouquet'', ''sunflower'', ''LAVENDER pot'', ''Rose'']"
proof -
  have h1: "shop_orders \<noteq> []"
    by (simp add: shop_orders_def)
  have h2: "garden_flowers \<noteq> []"
    by (simp add: garden_flowers_def)
  have h3: "to_datetime_col parse_iso_date (map o_ordered_at shop_orders)
     = Inr [midnight 739052 + 3600000000, midnight 739038, midnight 738945]"
    by code_simp
  have mo: "month_of (date_of noon) = 6"
    by code_simp
  have ev: "map f_name (seasonal (projr (get_recommendations parse_iso_date sort_values_desc
                noon noon 7 shop_orders shop_items garden_flowers)))
     = [''Red Rose Bouquet'', ''sunflower'', ''LAVENDER pot'', ''Rose'']"
    by code_simp
  note seasonal_is_catalogue_filter [OF h1 h2 h3, of sort_values_desc noon noon 7 shop_items]
  with h1 h2 h3 mo ev show ?thesis by (intro conjI)
qed

subsection \<open>Most purchased and trending\<close>

text \<open>
  C5 does not hold of the trending list: the code keeps the orders placed at or after
  seven days before the clock's reading and sets no upper end, so an order dated after
  the reading counts. The clock reads 2024-06-15 12:00. Order 1, of the day before, has
  one of each of the flowers 1 to 4; order 2, dated thirty days later, has five of flower
  4; order 3 is of January. The only order of the seven days that end at the reading is
  order 1, over which the three best ids, ties to the smaller id, are 1, 2 and 3; the
  trending list that \<open>get_recommendations\<close> returns has the flowers 1, 2 and 4.
\<close>

theorem trending_counts_orders_after_now:
  "to_datetime_col parse_iso_date (map o_ordered_at late_orders) = Inr late_stamps \<and>
   map o_id (last_7_days_ending noon late_orders late_stamps) = [1] \<and>
   top_flower_ids sort_values_desc
     (items_of (last_7_days_ending noon late_orders late_stamps) late_items) = [1, 2, 3] \<and>
   get_recommendations parse_iso_date sort_values_desc noon noon 7
       late_orders late_items tie_flowers
     = Inr \<lparr>most_purchased =
              [\<lparr>f_id = 1, f_name = ''Rose'', f_price = 3\<rparr>,
               \<lparr>f_id = 2, f_name = ''Tulip'', f_price = 2\<rparr>,
               \<lparr>f_id = 3, f_name = ''Peony'', f_price = 5\<rparr>],
            seasonal = [\<lparr>f_id = 1, f_name = ''Rose'', f_price = 3\<rparr>],
            trending =
              [\<lparr>f_id = 1, f_name = ''Rose'', f_price = 3\<rparr>,
               \<lparr>f_id = 2, f_name = ''Tulip'', f_price = 2\<rparr>,
               \<lparr>f_id = 4, f_name = ''Dahlia'', f_price = 4\<rparr>]\<rparr>"
proof -
  have a: "to_datetime_col parse_iso_date (map o_ordered_at late_orders) = Inr late_stamps"
    by code_simp
  have b: "map o_id (last_7_days_ending noon late_orders late_stamps) = [1]"
    by code_simp
  have c: "top_flower_ids sort_values_desc
     (items_of (last_7_days_ending noon late_orders late_stamps) late_items) = [1, 2, 3]"
    by code_simp
  have d: "get_recommendations parse_iso_date sort_values_desc noon noon 7
       late_orders late_items tie_flowers
     = Inr \<lparr>most_purchased =
              [\<lparr>f_id = 1, f_name = ''Rose'', f_price = 3\<rparr>,
               \<lparr>f_id = 2, f_name = ''Tulip'', f_price = 2\<rparr>,
               \<lparr>f_id = 3, f_name = ''Peony'', f_price = 5\<rparr>],
            seasonal = [\<lparr>f_id = 1, f_name = ''Rose'', f_price = 3\<rparr>],
            trending =
              [\<lparr>f_id = 1, f_name = ''Rose'', f_price = 3\<rparr>,
               \<lparr>f_id = 2, f_name = ''Tulip'', f_price = 2\<rparr>,
               \<lparr>f_id = 4, f_name = ''Dahlia'', f_price = 4\<rparr>]\<rparr>"
    by code_simp
  from a b c d show ?thesis by (intro conjI)
qed

end
